theory Spec2Isabelle
  imports Complex_Main "HOL-Library.Char_ord" "HOL-Library.List_Lexorder" "HOL-Library.Sublist"
begin

section \<open>The data model of Araras.py\<close>

text \<open>
  The dashboard reads one sheet of a workbook into a pandas DataFrame, cleans it
  (\<open>carregar_dados\<close>), narrows it by three sidebar filters (\<open>df_filtrado\<close>) and aggregates
  the rows that remain. The DataFrame is modelled as the list of its rows, in index order;
  the index labels are the row numbers \<open>read_excel\<close> assigns, they are unique, and no step
  of the script reorders rows, so a position in the list stands for a label.

  Strings are \<open>string\<close>, read as UTF-8 bytes: their lexicographic order is Python's order
  on \<open>str\<close>. The text columns \<open>Tipo\<close>, \<open>Subtipo\<close> and \<open>Locais\<close> hold text or nothing
  (\<open>None\<close> is pandas' NaN); a cell of another kind in a text column is outside the model,
  and so is a frame whose \<open>Locais\<close> column holds no text at all in the sheet (pandas gives
  such a column a numeric type, on which the \<open>.str\<close> accessor raises).

  The cleaned \<open>Quantidade\<close> column is a column of 64-bit signed integers. Its values are
  modelled as \<open>int\<close> with the wrap-around written out (\<open>int64\<close>): the loader stores values
  of the 64-bit range only, and the sums of the aggregates wrap into it.
\<close>

record 'q row =
  Tipo :: "string option"
  Subtipo :: "string option"
  Locais :: "string option"
  Quantidade :: 'q



text \<open>
  The ways the script stops: the two \<open>st.stop()\<close> exits of the loader, and the
  \<open>re.error\<close> that \<open>str.contains\<close> raises on a malformed pattern.
\<close>

datatype error = ArquivoNaoEncontrado | ColunasAusentes | ReError

section \<open>The loader\<close>



text \<open>The value a 64-bit signed integer holds for \<open>k\<close>: \<open>k\<close> wrapped into the range.\<close>

definition int64 :: "int \<Rightarrow> int" where
  "int64 k = (k + 2 ^ 63) mod 2 ^ 64 - 2 ^ 63"

text \<open>Truncation toward zero.\<close>

definition truncar :: "rat \<Rightarrow> int" where
  "truncar q = (if 0 \<le> q then \<lfloor>q\<rfloor> else \<lceil>q\<rceil>)"

text \<open>
  \<open>astype(int)\<close> on the coerced column: a number whose truncation fits in 64 bits is
  truncated toward zero. For a number outside the 64-bit range the script fixes nothing:
  the result depends on the type pandas chose for the column and on the conversion of the
  platform (an unsigned 64-bit column wraps, a float column gives what the hardware
  conversion gives). It is the parameter \<open>fora\<close>; whatever it answers is stored as a
  64-bit value.
\<close>

definition astype_int :: "(rat \<Rightarrow> int) \<Rightarrow> rat \<Rightarrow> int" where
  "astype_int fora q =
     (if - (2 ^ 63) \<le> truncar q \<and> truncar q < 2 ^ 63 then truncar q else int64 (fora q))"






section \<open>The sidebar and the filters\<close>





subsection \<open>The pattern search of \<open>str.contains\<close>\<close>

text \<open>
  \<open>Series.str.contains(busca_local, case=False, na=False)\<close> leaves \<open>regex\<close> at its default
  \<open>True\<close>: the term is compiled as a regular expression with \<open>re.IGNORECASE\<close> and searched
  in every string of the column; a missing value gives \<open>False\<close> (\<open>na=False\<close>).

  The library is the parameter \<open>ext\<close>: it answers \<open>None\<close> where \<open>re.compile\<close> raises
  \<open>re.error\<close>, and the search of the compiled pattern otherwise. One part of the pattern
  language is written out here and does not consult the parameter: a pattern of ASCII
  characters that are ordinary characters, dots and parentheses that only group, searched
  in an ASCII string. There one character is one byte, the dot matches every character but
  the line feed, and ignoring case is folding the letters \<open>A\<close> to \<open>Z\<close>. Every other
  pattern, and every string with a character outside ASCII, is left to the parameter.
\<close>

type_synonym matcher = "string \<Rightarrow> bool"

datatype re_item = Lit char | AnyChar

text \<open>The metacharacters, other than the dot and the parentheses.\<close>

definition re_outros :: "char list" where
  "re_outros = [CHR ''^'', CHR ''$'', CHR ''*'', CHR ''+'', CHR ''?'', CHR ''{'', CHR ''}'',
                CHR ''['', CHR '']'', CHR 0x5C, CHR ''|'']"

definition ascii :: "string \<Rightarrow> bool" where
  "ascii s = list_all (\<lambda>c. of_char c < (128::nat)) s"

definition lower_char :: "char \<Rightarrow> char" where
  "lower_char c = (if CHR ''A'' \<le> c \<and> c \<le> CHR ''Z'' then char_of (of_char c + (32::nat)) else c)"

fun item_matches :: "re_item \<Rightarrow> char \<Rightarrow> bool" where
  "item_matches (Lit a) c = (lower_char a = lower_char c)"
| "item_matches AnyChar c = (c \<noteq> CHR 0x0A)"

fun match_here :: "re_item list \<Rightarrow> string \<Rightarrow> bool" where
  "match_here [] s = True"
| "match_here (i # its) [] = False"
| "match_here (i # its) (c # cs) = (item_matches i c \<and> match_here its cs)"

fun re_search :: "re_item list \<Rightarrow> string \<Rightarrow> bool" where
  "re_search its [] = match_here its []"
| "re_search its (c # cs) = (match_here its (c # cs) \<or> re_search its cs)"

text \<open>Parentheses must close what was opened; \<open>d\<close> counts the groups still open.\<close>

fun balanced :: "nat \<Rightarrow> string \<Rightarrow> bool" where
  "balanced d [] = (d = 0)"
| "balanced d (c # cs) =
     (if c = CHR ''('' then balanced (Suc d) cs
      else if c = CHR '')'' then 0 < d \<and> balanced (d - 1) cs
      else balanced d cs)"

definition re_items :: "string \<Rightarrow> re_item list" where
  "re_items pat =
     map (\<lambda>c. if c = CHR ''.'' then AnyChar else Lit c)
       (filter (\<lambda>c. c \<noteq> CHR ''('' \<and> c \<noteq> CHR '')'') pat)"

text \<open>
  The library compiles every pattern of the written-out part whose parentheses close, so
  for the library itself the case \<open>None\<close> of the last line does not arise.
\<close>

definition re_compile :: "(string \<Rightarrow> matcher option) \<Rightarrow> string \<Rightarrow> matcher option" where
  "re_compile ext pat =
     (if list_ex (\<lambda>c. c \<in> set re_outros) pat \<or> \<not> ascii pat then ext pat
      else if \<not> balanced 0 pat then None
      else Some (\<lambda>s. if ascii s then re_search (re_items pat) s
                     else (case ext pat of None \<Rightarrow> False | Some m \<Rightarrow> m s)))"

text \<open>\<open>na=False\<close>: a missing value never matches.\<close>

definition str_contains :: "matcher \<Rightarrow> string option \<Rightarrow> bool" where
  "str_contains m v = (case v of None \<Rightarrow> False | Some s \<Rightarrow> m s)"

subsection \<open>The three filters\<close>

definition df_filtrado ::
  "(string \<Rightarrow> matcher option) \<Rightarrow> 'q row list \<Rightarrow> string \<Rightarrow> string \<Rightarrow> string \<Rightarrow> error + 'q row list"
where
  "df_filtrado ext df tipo_opcao subtipo_opcao busca_local =
     (let d1 = (if tipo_opcao \<noteq> ''Todos'' then filter (\<lambda>r. Tipo r = Some tipo_opcao) df else df);
          d2 = (if subtipo_opcao \<noteq> ''Todos'' then filter (\<lambda>r. Subtipo r = Some subtipo_opcao) d1
                else d1)
      in if busca_local \<noteq> []
         then (case re_compile ext busca_local of
                 None \<Rightarrow> Inl ReError
               | Some m \<Rightarrow> Inr (filter (\<lambda>r. str_contains m (Locais r)) d2))
         else Inr d2)"

section \<open>The aggregates\<close>

text \<open>
  \<open>idxmax\<close>: the label of the first row that holds the maximum. It is taken only when the
  filtered frame is not empty (the \<open>else\<close> branch of \<open>if df_filtrado.empty\<close>).
\<close>

fun idxmax_from :: "nat \<Rightarrow> nat \<Rightarrow> int \<Rightarrow> int list \<Rightarrow> nat" where
  "idxmax_from i best m [] = best"
| "idxmax_from i best m (x # xs) =
     (if m < x then idxmax_from (Suc i) i x xs else idxmax_from (Suc i) best m xs)"

definition idxmax :: "int list \<Rightarrow> nat option" where
  "idxmax xs = (case xs of [] \<Rightarrow> None | x # rest \<Rightarrow> Some (idxmax_from 1 0 x rest))"

definition maior_linha :: "int row list \<Rightarrow> int row option" where
  "maior_linha df =
     (if df = [] then None
      else (case idxmax (map Quantidade df) of None \<Rightarrow> None | Some i \<Rightarrow> Some (df ! i)))"

text \<open>
  The sum of one group, as the 64-bit column holds it: the quantities of the rows whose key
  is \<open>k\<close>, added with wrap-around.
\<close>

definition soma_grupo :: "(int row \<Rightarrow> string option) \<Rightarrow> int row list \<Rightarrow> string \<Rightarrow> int" where
  "soma_grupo chave df k =
     int64 (sum_list (map Quantidade (filter (\<lambda>r. chave r = Some k) df)))"

text \<open>
  \<open>df.groupby(chave)["Quantidade"].sum()\<close> with the defaults of \<open>groupby\<close>
  (\<open>sort=True\<close>, \<open>dropna=True\<close>): one group for each value of the key column that is
  present, the groups in ascending order of the key, each with the sum of its rows.
\<close>

definition groupby_sum :: "(int row \<Rightarrow> string option) \<Rightarrow> int row list \<Rightarrow> (string \<times> int) list" where
  "groupby_sum chave df =
     map (\<lambda>k. (k, soma_grupo chave df k)) (sort (remdups (List.map_filter chave df)))"

text \<open>
  \<open>sort_values("Quantidade", ascending=False)\<close>: pandas reverses the column, sorts it in
  ascending order and reverses the result. The default sort of the library is not stable:
  the order it gives to groups with equal sums is not fixed by the script. That order is
  the parameter \<open>desempate\<close>, a rank of the group keys: here the reversed column is put
  in the order of the ranks and then sorted by the sums with a stable sort, so groups with
  equal sums come out in the order of their ranks, and every order of them is the order of
  some rank.
\<close>

definition sort_values_desc ::
  "(string \<Rightarrow> nat) \<Rightarrow> (string \<times> int) list \<Rightarrow> (string \<times> int) list"
where
  "sort_values_desc desempate g =
     rev (sort_key snd (sort_key (\<lambda>x. desempate (fst x)) (rev g)))"

definition top_n :: nat where
  "top_n = 10"

definition df_locais :: "(string \<Rightarrow> nat) \<Rightarrow> int row list \<Rightarrow> (string \<times> int) list" where
  "df_locais desempate df = sort_values_desc desempate (groupby_sum Locais df)"

definition df_para_plotar :: "(string \<Rightarrow> nat) \<Rightarrow> int row list \<Rightarrow> (string \<times> int) list" where
  "df_para_plotar desempate df = take top_n (df_locais desempate df)"

definition df_tipo :: "int row list \<Rightarrow> (string \<times> int) list" where
  "df_tipo df = groupby_sum Tipo df"

definition df_subtipo_bar :: "int row list \<Rightarrow> (string \<times> int) list" where
  "df_subtipo_bar df = groupby_sum Subtipo df"

definition df_subtipo_pie :: "int row list \<Rightarrow> (string \<times> int) list" where
  "df_subtipo_pie df = groupby_sum Subtipo df"

section \<open>The predicates and orders the specification names\<close>

text \<open>
  The three predicates of the filter engine, in the words of the specification: the
  category and the subcategory must be equal to the selected one unless \<open>Todos\<close> is
  selected, and the location search is skipped when the term is empty. The search itself
  is what the compiled pattern answers on \<open>Locais\<close>.
\<close>

definition tipo_ok :: "string \<Rightarrow> 'q row \<Rightarrow> bool" where
  "tipo_ok tipo_opcao r = (tipo_opcao = ''Todos'' \<or> Tipo r = Some tipo_opcao)"

definition subtipo_ok :: "string \<Rightarrow> 'q row \<Rightarrow> bool" where
  "subtipo_ok subtipo_opcao r = (subtipo_opcao = ''Todos'' \<or> Subtipo r = Some subtipo_opcao)"

definition busca_ok :: "(string \<Rightarrow> matcher option) \<Rightarrow> string \<Rightarrow> 'q row \<Rightarrow> bool" where
  "busca_ok ext busca_local r =
     (busca_local = [] \<or>
      (case re_compile ext busca_local of None \<Rightarrow> False | Some m \<Rightarrow> str_contains m (Locais r)))"

text \<open>
  The specification's reading of the search, for ASCII text: the term is contained,
  case-insensitively, as a substring of the location name.
\<close>

definition contem_sem_caixa :: "string \<Rightarrow> string \<Rightarrow> bool" where
  "contem_sem_caixa termo s = sublist (map lower_char termo) (map lower_char s)"

text \<open>
  The specification's order for the breakdown views: the keys in the order in which each
  first appears in the input.
\<close>

definition ordem_primeira_aparicao :: "('q row \<Rightarrow> string option) \<Rightarrow> 'q row list \<Rightarrow> string list" where
  "ordem_primeira_aparicao chave df = rev (remdups (rev (List.map_filter chave df)))"

section \<open>Example data\<close>



definition fora_modular :: "rat \<Rightarrow> int" where
  "fora_modular q = truncar q"


text \<open>The Dataset of the worked example of the specification.\<close>

definition dataset_exemplo :: "int row list" where
  "dataset_exemplo =
     [\<lparr>Tipo = Some ''X'', Subtipo = Some ''S1'', Locais = Some ''L1'', Quantidade = 3\<rparr>,
      \<lparr>Tipo = Some ''X'', Subtipo = Some ''S1'', Locais = Some ''L2'', Quantidade = 7\<rparr>,
      \<lparr>Tipo = Some ''Y'', Subtipo = Some ''S2'', Locais = Some ''L1'', Quantidade = 2\<rparr>]"



section \<open>Properties of the loader\<close>






subsection \<open>The 64-bit range\<close>

lemma int64_range: "- (2 ^ 63) \<le> int64 k \<and> int64 k < 2 ^ 63"
proof -
  have "0 \<le> (k + 2 ^ 63) mod 2 ^ 64" "(k + 2 ^ 63) mod 2 ^ 64 < (2 ^ 64 :: int)"
    by simp_all
  then show ?thesis
    by (simp add: int64_def)
qed

lemma int64_id: "- (2 ^ 63) \<le> k \<Longrightarrow> k < 2 ^ 63 \<Longrightarrow> int64 k = k"
proof -
  assume "- (2 ^ 63) \<le> k" "k < 2 ^ 63"
  then have "0 \<le> k + 2 ^ 63" "k + 2 ^ 63 < (2 ^ 64 :: int)"
    by simp_all
  then have "(k + 2 ^ 63) mod 2 ^ 64 = k + 2 ^ 63"
    by (rule mod_pos_pos_trivial)
  then show ?thesis
    by (simp add: int64_def)
qed



lemma truncar_of_int: "truncar (of_int k) = k"
  by (simp add: truncar_def)

lemma truncar_numerals:
  "truncar 0 = 0" "truncar 1 = 1" "truncar (numeral n) = numeral n"
  "truncar (- 1) = - 1" "truncar (- numeral n) = - numeral n"
  using truncar_of_int [of 0] truncar_of_int [of 1] truncar_of_int [of "numeral n"]
    truncar_of_int [of "- 1"] truncar_of_int [of "- numeral n"]
  by simp_all


text \<open>
  One of the conversions the parameter stands for: when it wraps, the number \<open>10^19\<close>,
  which lies between \<open>2^63\<close> and \<open>2^64\<close>, is stored as \<open>10^19 - 2^64\<close>.
\<close>

lemma astype_int_fora_modular:
  "astype_int fora_modular 10000000000000000000 = - 8446744073709551616"
  by (simp add: astype_int_def fora_modular_def truncar_numerals int64_def)





subsection \<open>Fractional quantities\<close>











section \<open>Properties of the filters\<close>

lemma filter_tipo:
  "(if t \<noteq> ''Todos'' then filter (\<lambda>r. Tipo r = Some t) df else df) = filter (tipo_ok t) df"
  by (auto simp add: tipo_ok_def intro: filter_cong)

lemma filter_subtipo:
  "(if s \<noteq> ''Todos'' then filter (\<lambda>r. Subtipo r = Some s) df else df)
     = filter (subtipo_ok s) df"
  by (auto simp add: subtipo_ok_def intro: filter_cong)

text \<open>The three steps of the script as one pass over the frame.\<close>

lemma df_filtrado_eq:
  "df_filtrado ext df t s b =
     (if b \<noteq> [] \<and> re_compile ext b = None then Inl ReError
      else Inr (filter (\<lambda>r. tipo_ok t r \<and> subtipo_ok s r \<and> busca_ok ext b r) df))"
proof -
  have "df_filtrado ext df t s b =
     (if b \<noteq> []
      then (case re_compile ext b of None \<Rightarrow> Inl ReError
            | Some m \<Rightarrow> Inr (filter (\<lambda>r. str_contains m (Locais r))
                              (filter (subtipo_ok s) (filter (tipo_ok t) df))))
      else Inr (filter (subtipo_ok s) (filter (tipo_ok t) df)))"
    unfolding df_filtrado_def Let_def filter_tipo filter_subtipo ..
  then show ?thesis
    by (auto simp add: busca_ok_def split: option.splits intro!: filter_cong)
qed

subsection \<open>Three search terms\<close>

lemma ascii_exemplos: "ascii ''l2''" "ascii ''(''" "ascii ''.''" "ascii ''L1''" "ascii ''L2''"
  by code_simp+

lemma re_compile_l2:
  "re_compile ext ''l2'' =
     Some (\<lambda>s. if ascii s then re_search [Lit CHR ''l'', Lit CHR ''2''] s
                else (case ext ''l2'' of None \<Rightarrow> False | Some m \<Rightarrow> m s))"
  by (simp add: re_compile_def re_outros_def re_items_def ascii_exemplos)

lemma re_compile_ponto:
  "re_compile ext ''.'' =
     Some (\<lambda>s. if ascii s then re_search [AnyChar] s
                else (case ext ''.'' of None \<Rightarrow> False | Some m \<Rightarrow> m s))"
  by (simp add: re_compile_def re_outros_def re_items_def ascii_exemplos)

lemma re_compile_parentese: "re_compile ext ''('' = None"
  by (simp add: re_compile_def re_outros_def ascii_exemplos)

lemma busca_l2:
  "re_search [Lit CHR ''l'', Lit CHR ''2''] ''L2''"
  "\<not> re_search [Lit CHR ''l'', Lit CHR ''2''] ''L1''"
  by code_simp+

lemma df_filtrado_exemplo_l2:
  "df_filtrado ext dataset_exemplo ''X'' ''S1'' ''l2'' =
     Inr [\<lparr>Tipo = Some ''X'', Subtipo = Some ''S1'', Locais = Some ''L2'', Quantidade = 7\<rparr>]"
  using busca_l2
  by (simp add: df_filtrado_def re_compile_l2 dataset_exemplo_def str_contains_def
      ascii_exemplos)

subsection \<open>The filter engine\<close>

text \<open>
  C2, at the search term \<open>(\<close>. The claim has the filter engine return, for every
  FilterState, the records that satisfy the three predicates. With the search term \<open>(\<close>,
  an unclosed group, the engine returns no record sequence: \<open>str.contains\<close> compiles the
  term as a regular expression and raises \<open>re.error\<close>, whatever the Dataset row holds and
  with no category or subcategory selected.
\<close>

theorem df_filtrado_parentese_erro:
  "df_filtrado ext
     [\<lparr>Tipo = Some ''X'', Subtipo = Some ''S1'', Locais = Some ''L1'', Quantidade = (3::int)\<rparr>]
     ''Todos'' ''Todos'' ''('' = Inl ReError"
  by (simp add: df_filtrado_def re_compile_parentese)

text \<open>
  C3, at the search term \<open>.\<close>. The claim has the search retain a record exactly when the
  term is contained, case-insensitively, in its \<open>Locais\<close>. The term \<open>.\<close> retains the
  record whose \<open>Locais\<close> is \<open>L1\<close>, although \<open>.\<close> is not contained in \<open>L1\<close>: the term
  is compiled as a regular expression, where the dot matches any character.
\<close>

theorem busca_local_ponto_retem:
  "df_filtrado ext
     [\<lparr>Tipo = Some ''X'', Subtipo = Some ''S1'', Locais = Some ''L1'', Quantidade = (3::int)\<rparr>]
     ''Todos'' ''Todos'' ''.''
   = Inr [\<lparr>Tipo = Some ''X'', Subtipo = Some ''S1'', Locais = Some ''L1'', Quantidade = 3\<rparr>]
   \<and> \<not> contem_sem_caixa ''.'' ''L1''"
proof -
  have "\<not> contem_sem_caixa ''.'' ''L1''" by code_simp
  moreover have "re_search [AnyChar] ''L1''" by code_simp
  ultimately show ?thesis
    by (simp add: df_filtrado_def re_compile_ponto str_contains_def ascii_exemplos)
qed

text \<open>
  C7. Filtering is idempotent: when the filter engine returns a record sequence, applying
  it to that sequence with the same FilterState returns the same sequence.
\<close>

theorem df_filtrado_idempotente:
  "df_filtrado ext df t s b = Inr ys \<Longrightarrow> df_filtrado ext ys t s b = Inr ys"
  by (auto simp add: df_filtrado_eq split: if_splits)

text \<open>Filtering the example Dataset, and filtering the result again.\<close>

theorem df_filtrado_idempotente_witness:
  "df_filtrado (\<lambda>p. None) dataset_exemplo ''X'' ''S1'' ''l2'' =
     Inr [\<lparr>Tipo = Some ''X'', Subtipo = Some ''S1'', Locais = Some ''L2'', Quantidade = 7\<rparr>]
   \<and> df_filtrado (\<lambda>p. None)
       [\<lparr>Tipo = Some ''X'', Subtipo = Some ''S1'', Locais = Some ''L2'', Quantidade = 7::int\<rparr>]
       ''X'' ''S1'' ''l2'' =
     Inr [\<lparr>Tipo = Some ''X'', Subtipo = Some ''S1'', Locais = Some ''L2'', Quantidade = 7\<rparr>]"
proof -
  have 1: "df_filtrado (\<lambda>p. None) dataset_exemplo ''X'' ''S1'' ''l2'' =
     Inr [\<lparr>Tipo = Some ''X'', Subtipo = Some ''S1'', Locais = Some ''L2'', Quantidade = 7\<rparr>]"
    by (rule df_filtrado_exemplo_l2)
  from df_filtrado_idempotente [OF 1] 1 show ?thesis by simp
qed

text \<open>
  C8. For every Dataset, every category value and every subcategory value, the result of
  filtering by that category and that subcategory together is a subset, and a subsequence,
  of the result of filtering by that category alone: without a search term both filters
  return, and with any search term the first returns only if the second does.
\<close>

theorem df_filtrado_subtipo_subconjunto:
  "(\<exists>ys zs. df_filtrado ext df t s [] = Inr ys \<and> df_filtrado ext df t ''Todos'' [] = Inr zs
        \<and> set ys \<subseteq> set zs \<and> subseq ys zs)
   \<and> (\<forall>ys. df_filtrado ext df t s b = Inr ys \<longrightarrow>
         (\<exists>zs. df_filtrado ext df t ''Todos'' b = Inr zs \<and> set ys \<subseteq> set zs \<and> subseq ys zs))"
proof -
  have sub: "set ys \<subseteq> set zs \<and> subseq ys zs"
    if ys: "ys = filter (\<lambda>r. tipo_ok t r \<and> subtipo_ok s r \<and> busca_ok ext c r) df"
      and zs: "zs = filter (\<lambda>r. tipo_ok t r \<and> subtipo_ok ''Todos'' r \<and> busca_ok ext c r) df"
    for ys zs c
  proof -
    have f: "ys = filter (subtipo_ok s) zs"
      unfolding ys zs by (auto simp add: subtipo_ok_def intro: filter_cong)
    have "set (filter (subtipo_ok s) zs) \<subseteq> set zs"
      by (rule filter_is_subset)
    moreover have "subseq (filter (subtipo_ok s) zs) zs"
      by (rule subseq_filter_left)
    ultimately show ?thesis
      by (simp only: f [symmetric])
  qed
  have "\<exists>ys zs. df_filtrado ext df t s [] = Inr ys \<and> df_filtrado ext df t ''Todos'' [] = Inr zs
        \<and> set ys \<subseteq> set zs \<and> subseq ys zs"
    using sub [OF refl refl, of "[]"] by (simp add: df_filtrado_eq)
  moreover have "\<forall>ys. df_filtrado ext df t s b = Inr ys \<longrightarrow>
         (\<exists>zs. df_filtrado ext df t ''Todos'' b = Inr zs \<and> set ys \<subseteq> set zs \<and> subseq ys zs)"
    using sub [OF refl refl, of b] by (auto simp add: df_filtrado_eq split: if_splits)
  ultimately show ?thesis by blast
qed

text \<open>
  On the example Dataset, category \<open>X\<close> with subcategory \<open>S1\<close> and the search \<open>l2\<close>
  gives one row, and category \<open>X\<close> alone with the same search gives the same row.
\<close>

theorem df_filtrado_subtipo_subconjunto_witness:
  "df_filtrado (\<lambda>p. None) dataset_exemplo ''X'' ''S1'' ''l2'' =
     Inr [\<lparr>Tipo = Some ''X'', Subtipo = Some ''S1'', Locais = Some ''L2'', Quantidade = 7\<rparr>]
   \<and> (\<exists>zs. df_filtrado (\<lambda>p. None) dataset_exemplo ''X'' ''Todos'' ''l2'' = Inr zs
        \<and> set [\<lparr>Tipo = Some ''X'', Subtipo = Some ''S1'', Locais = Some ''L2'', Quantidade = 7\<rparr>]
            \<subseteq> set zs)"
proof -
  have 1: "df_filtrado (\<lambda>p. None) dataset_exemplo ''X'' ''S1'' ''l2'' =
     Inr [\<lparr>Tipo = Some ''X'', Subtipo = Some ''S1'', Locais = Some ''L2'', Quantidade = 7\<rparr>]"
    by (rule df_filtrado_exemplo_l2)
  from df_filtrado_subtipo_subconjunto
    [of "\<lambda>p. None" dataset_exemplo "''X''" "''S1''" "''l2''"] 1
  show ?thesis by blast
qed

subsection \<open>Rows without a category\<close>

lemma set_map_filter_chave:
  "set (List.map_filter chave df) = {k. \<exists>r\<in>set df. chave r = Some k}"
  by (induction df) (auto simp add: List.map_filter_simps split: option.splits)






section \<open>Properties of the aggregates\<close>

subsection \<open>The row with the most cameras\<close>

text \<open>
  The scan either keeps the best position it started with, and then nothing later is
  larger, or it ends on the first position of the rest that holds the maximum.
\<close>

lemma idxmax_from_spec:
  "(idxmax_from i b m xs = b \<and> (\<forall>x\<in>set xs. x \<le> m)) \<or>
   (\<exists>k<length xs. idxmax_from i b m xs = i + k \<and> m < xs ! k
       \<and> (\<forall>j<k. xs ! j < xs ! k) \<and> (\<forall>j<length xs. xs ! j \<le> xs ! k))"
proof (induction xs arbitrary: i b m)
  case Nil
  then show ?case by simp
next
  case (Cons x xs)
  show ?case
  proof (cases "m < x")
    case True
    from Cons.IH [of "Suc i" i x]
    show ?thesis
    proof
      assume a: "idxmax_from (Suc i) i x xs = i \<and> (\<forall>y\<in>set xs. y \<le> x)"
      have "\<forall>j<length (x # xs). (x # xs) ! j \<le> (x # xs) ! 0"
        using a by (auto simp: nth_Cons split: nat.splits)
      then have "0 < length (x # xs) \<and> idxmax_from i b m (x # xs) = i + 0 \<and> m < (x # xs) ! 0
         \<and> (\<forall>j<0. (x # xs) ! j < (x # xs) ! 0) \<and> (\<forall>j<length (x # xs). (x # xs) ! j \<le> (x # xs) ! 0)"
        using True a by simp
      then show ?thesis by blast
    next
      assume "\<exists>k<length xs. idxmax_from (Suc i) i x xs = Suc i + k \<and> x < xs ! k
         \<and> (\<forall>j<k. xs ! j < xs ! k) \<and> (\<forall>j<length xs. xs ! j \<le> xs ! k)"
      then obtain k where k: "k < length xs" "idxmax_from (Suc i) i x xs = Suc i + k" "x < xs ! k"
         "\<forall>j<k. xs ! j < xs ! k" "\<forall>j<length xs. xs ! j \<le> xs ! k"
        by blast
      have "\<forall>j<Suc k. (x # xs) ! j < (x # xs) ! Suc k"
        using k by (auto simp: nth_Cons split: nat.splits)
      moreover have "\<forall>j<length (x # xs). (x # xs) ! j \<le> (x # xs) ! Suc k"
        using k by (auto simp: nth_Cons split: nat.splits)
      ultimately have "Suc k < length (x # xs) \<and> idxmax_from i b m (x # xs) = i + Suc k
         \<and> m < (x # xs) ! Suc k \<and> (\<forall>j<Suc k. (x # xs) ! j < (x # xs) ! Suc k)
         \<and> (\<forall>j<length (x # xs). (x # xs) ! j \<le> (x # xs) ! Suc k)"
        using True k by simp
      then show ?thesis by blast
    qed
  next
    case False
    from Cons.IH [of "Suc i" b m]
    show ?thesis
    proof
      assume "idxmax_from (Suc i) b m xs = b \<and> (\<forall>y\<in>set xs. y \<le> m)"
      then show ?thesis using False by simp
    next
      assume "\<exists>k<length xs. idxmax_from (Suc i) b m xs = Suc i + k \<and> m < xs ! k
         \<and> (\<forall>j<k. xs ! j < xs ! k) \<and> (\<forall>j<length xs. xs ! j \<le> xs ! k)"
      then obtain k where k: "k < length xs" "idxmax_from (Suc i) b m xs = Suc i + k" "m < xs ! k"
         "\<forall>j<k. xs ! j < xs ! k" "\<forall>j<length xs. xs ! j \<le> xs ! k"
        by blast
      have "\<forall>j<Suc k. (x # xs) ! j < (x # xs) ! Suc k"
        using k False by (auto simp: nth_Cons split: nat.splits)
      moreover have "\<forall>j<length (x # xs). (x # xs) ! j \<le> (x # xs) ! Suc k"
        using k False by (auto simp: nth_Cons split: nat.splits)
      ultimately have "Suc k < length (x # xs) \<and> idxmax_from i b m (x # xs) = i + Suc k
         \<and> m < (x # xs) ! Suc k \<and> (\<forall>j<Suc k. (x # xs) ! j < (x # xs) ! Suc k)
         \<and> (\<forall>j<length (x # xs). (x # xs) ! j \<le> (x # xs) ! Suc k)"
        using False k by simp
      then show ?thesis by blast
    qed
  qed
qed

lemma idxmax_spec:
  assumes "xs \<noteq> []"
  shows "\<exists>i<length xs. idxmax xs = Some i \<and> (\<forall>j<length xs. xs ! j \<le> xs ! i) \<and> (\<forall>j<i. xs ! j < xs ! i)"
proof -
  from assms obtain x rest where xs: "xs = x # rest" by (cases xs) auto
  from idxmax_from_spec [of 1 0 x rest]
  show ?thesis
  proof
    assume a: "idxmax_from 1 0 x rest = 0 \<and> (\<forall>y\<in>set rest. y \<le> x)"
    have "\<forall>j<length xs. xs ! j \<le> xs ! 0"
      using a xs by (auto simp: nth_Cons split: nat.splits)
    then have "0 < length xs \<and> idxmax xs = Some 0 \<and> (\<forall>j<length xs. xs ! j \<le> xs ! 0) \<and> (\<forall>j<0. xs ! j < xs ! 0)"
      using a xs by (simp add: idxmax_def)
    then show ?thesis by blast
  next
    assume "\<exists>k<length rest. idxmax_from 1 0 x rest = 1 + k \<and> x < rest ! k
         \<and> (\<forall>j<k. rest ! j < rest ! k) \<and> (\<forall>j<length rest. rest ! j \<le> rest ! k)"
    then obtain k where k: "k < length rest" "idxmax_from 1 0 x rest = 1 + k" "x < rest ! k"
         "\<forall>j<k. rest ! j < rest ! k" "\<forall>j<length rest. rest ! j \<le> rest ! k"
      by blast
    have "\<forall>j<Suc k. xs ! j < xs ! Suc k"
      using k xs by (auto simp: nth_Cons split: nat.splits)
    moreover have "\<forall>j<length xs. xs ! j \<le> xs ! Suc k"
      using k xs by (auto simp: nth_Cons split: nat.splits)
    ultimately have "Suc k < length xs \<and> idxmax xs = Some (Suc k) \<and> (\<forall>j<length xs. xs ! j \<le> xs ! Suc k)
       \<and> (\<forall>j<Suc k. xs ! j < xs ! Suc k)"
      using k xs by (simp add: idxmax_def)
    then show ?thesis by blast
  qed
qed

text \<open>
  C4. For every non-empty filtered record sequence, the max-row lookup returns a record of
  the sequence whose \<open>Quantidade\<close> is the largest, and every record before it has a
  strictly smaller \<open>Quantidade\<close>: among the records that tie for the largest, it is the
  first in input order.
\<close>

theorem maior_linha_primeiro_maximo:
  assumes "df \<noteq> []"
  shows "\<exists>i<length df. maior_linha df = Some (df ! i)
     \<and> (\<forall>j<length df. Quantidade (df ! j) \<le> Quantidade (df ! i))
     \<and> (\<forall>j<i. Quantidade (df ! j) < Quantidade (df ! i))"
proof -
  from assms have "map Quantidade df \<noteq> []" by simp
  from idxmax_spec [OF this]
  obtain i where i: "i < length df" "idxmax (map Quantidade df) = Some i"
    "\<forall>j<length df. map Quantidade df ! j \<le> map Quantidade df ! i"
    "\<forall>j<i. map Quantidade df ! j < map Quantidade df ! i"
    by auto
  have "maior_linha df = Some (df ! i)"
    using assms i(2) by (simp add: maior_linha_def)
  moreover have "\<forall>j<length df. Quantidade (df ! j) \<le> Quantidade (df ! i)"
    using i(1,3) by auto
  moreover have "\<forall>j<i. Quantidade (df ! j) < Quantidade (df ! i)"
    using i(1,4) by auto
  ultimately show ?thesis using i(1) by blast
qed

text \<open>
  The example of the specification: two records with \<open>Quantidade\<close> 5, the first at
  \<open>A\<close>, the second at \<open>B\<close>; the lookup returns the record at \<open>A\<close>.
\<close>

theorem maior_linha_primeiro_maximo_witness:
  "maior_linha [\<lparr>Tipo = Some ''X'', Subtipo = Some ''S1'', Locais = Some ''A'', Quantidade = 5\<rparr>,
                \<lparr>Tipo = Some ''X'', Subtipo = Some ''S1'', Locais = Some ''B'', Quantidade = 5\<rparr>]
     = Some \<lparr>Tipo = Some ''X'', Subtipo = Some ''S1'', Locais = Some ''A'', Quantidade = 5\<rparr>"
proof -
  let ?df = "[\<lparr>Tipo = Some ''X'', Subtipo = Some ''S1'', Locais = Some ''A'', Quantidade = 5::int\<rparr>,
                \<lparr>Tipo = Some ''X'', Subtipo = Some ''S1'', Locais = Some ''B'', Quantidade = 5\<rparr>]"
  have "?df \<noteq> []" by simp
  from maior_linha_primeiro_maximo [OF this] obtain i where i: "i < length ?df" "maior_linha ?df = Some (?df ! i)"
    "\<forall>j<i. Quantidade (?df ! j) < Quantidade (?df ! i)"
    by blast
  have "i = 0"
  proof (rule ccontr)
    assume "i \<noteq> 0"
    with i(1) have i1: "i = 1" by simp
    then have "Quantidade (?df ! 0) < Quantidade (?df ! i)" using i(3) by blast
    then show False using i1 by simp
  qed
  with i(2) show ?thesis by simp
qed

subsection \<open>Group-by-sum\<close>

text \<open>
  Wrapping once, after the exact sum, is wrapping at every addition: the 64-bit
  accumulator of a group holds the same value either way.
\<close>

lemma int64_add: "int64 (int64 a + b) = int64 (a + b)"
proof -
  have "int64 a + b + 2 ^ 63 = (a + 2 ^ 63) mod 2 ^ 64 + b"
    by (simp add: int64_def)
  then have "(int64 a + b + 2 ^ 63) mod 2 ^ 64 = ((a + 2 ^ 63) mod 2 ^ 64 + b) mod 2 ^ 64"
    by (simp only:)
  also have "\<dots> = (a + 2 ^ 63 + b) mod 2 ^ 64"
    by (rule mod_add_left_eq)
  also have "a + 2 ^ 63 + b = a + b + 2 ^ 63"
    by (simp only: add.assoc add.commute [of "2 ^ 63" b])
  finally have "(int64 a + b + 2 ^ 63) mod 2 ^ 64 = (a + b + 2 ^ 63) mod 2 ^ 64" .
  then show ?thesis
    by (simp only: int64_def [of "int64 a + b"] int64_def [of "a + b"])
qed

lemma soma_grupo_range:
  "- (2 ^ 63) \<le> soma_grupo chave df k \<and> soma_grupo chave df k < 2 ^ 63"
  by (simp only: soma_grupo_def int64_range)

lemma soma_grupo_exata:
  "- (2 ^ 63) \<le> sum_list (map Quantidade (filter (\<lambda>r. chave r = Some k) df)) \<Longrightarrow>
   sum_list (map Quantidade (filter (\<lambda>r. chave r = Some k) df)) < 2 ^ 63 \<Longrightarrow>
   soma_grupo chave df k = sum_list (map Quantidade (filter (\<lambda>r. chave r = Some k) df))"
  by (simp only: soma_grupo_def int64_id)

lemma groupby_sum_keys: "map fst (groupby_sum chave df) = sort (remdups (List.map_filter chave df))"
  by (simp add: groupby_sum_def comp_def)

lemma groupby_sum_eq:
  "groupby_sum chave df = map (\<lambda>k. (k, soma_grupo chave df k)) (map fst (groupby_sum chave df))"
  by (simp add: groupby_sum_keys) (simp add: groupby_sum_def)

lemma groupby_sum_sorted: "sorted (map fst (groupby_sum chave df))"
  by (simp add: groupby_sum_keys)

lemma groupby_sum_distinct: "distinct (map fst (groupby_sum chave df))"
  by (simp add: groupby_sum_keys)

lemma groupby_sum_set_keys:
  "set (map fst (groupby_sum chave df)) = {k. \<exists>r\<in>set df. chave r = Some k}"
  by (simp only: groupby_sum_keys set_sort set_remdups set_map_filter_chave)

lemma groupby_sum_member:
  "(k, v) \<in> set (groupby_sum chave df) \<longleftrightarrow> (\<exists>r\<in>set df. chave r = Some k) \<and> v = soma_grupo chave df k"
proof -
  have "(k, v) \<in> set (groupby_sum chave df) \<longleftrightarrow>
        k \<in> set (sort (remdups (List.map_filter chave df))) \<and> v = soma_grupo chave df k"
    by (auto simp add: groupby_sum_def)
  then show ?thesis
    by (simp add: set_map_filter_chave)
qed

text \<open>
  C6 (as amended). For every filtered record sequence, the group-by-sum used for the
  category and subcategory breakdown views yields one group for each key value that is
  present, each with the sum of the quantities of its rows as the 64-bit column holds it
  (the exact sum whenever that fits in 64 bits), and yields the groups in ascending order
  of the key; this is the order of the keys and not the descending order of the sums used
  for the top-N view.
\<close>

theorem groupby_sum_ordem_da_chave:
  "sorted (map fst (groupby_sum chave df)) \<and> distinct (map fst (groupby_sum chave df))
   \<and> set (map fst (groupby_sum chave df)) = {k. \<exists>r\<in>set df. chave r = Some k}
   \<and> (\<forall>g\<in>set (groupby_sum chave df).
         snd g = int64 (sum_list (map Quantidade (filter (\<lambda>r. chave r = Some (fst g)) df)))
         \<and> (- (2 ^ 63) \<le> sum_list (map Quantidade (filter (\<lambda>r. chave r = Some (fst g)) df))
            \<and> sum_list (map Quantidade (filter (\<lambda>r. chave r = Some (fst g)) df)) < 2 ^ 63
            \<longrightarrow> snd g = sum_list (map Quantidade (filter (\<lambda>r. chave r = Some (fst g)) df))))
   \<and> df_tipo df = groupby_sum Tipo df \<and> df_subtipo_pie df = groupby_sum Subtipo df
   \<and> df_subtipo_bar df = groupby_sum Subtipo df"
proof -
  have "\<forall>g\<in>set (groupby_sum chave df).
         snd g = int64 (sum_list (map Quantidade (filter (\<lambda>r. chave r = Some (fst g)) df)))
         \<and> (- (2 ^ 63) \<le> sum_list (map Quantidade (filter (\<lambda>r. chave r = Some (fst g)) df))
            \<and> sum_list (map Quantidade (filter (\<lambda>r. chave r = Some (fst g)) df)) < 2 ^ 63
            \<longrightarrow> snd g = sum_list (map Quantidade (filter (\<lambda>r. chave r = Some (fst g)) df)))"
  proof
    fix g assume "g \<in> set (groupby_sum chave df)"
    then have "(fst g, snd g) \<in> set (groupby_sum chave df)" by simp
    then have v: "snd g = soma_grupo chave df (fst g)"
      by (simp only: groupby_sum_member)
    then show "snd g = int64 (sum_list (map Quantidade (filter (\<lambda>r. chave r = Some (fst g)) df)))
         \<and> (- (2 ^ 63) \<le> sum_list (map Quantidade (filter (\<lambda>r. chave r = Some (fst g)) df))
            \<and> sum_list (map Quantidade (filter (\<lambda>r. chave r = Some (fst g)) df)) < 2 ^ 63
            \<longrightarrow> snd g = sum_list (map Quantidade (filter (\<lambda>r. chave r = Some (fst g)) df)))"
      using soma_grupo_exata [of chave "fst g" df] by (simp add: soma_grupo_def)
  qed
  then show ?thesis
    by (simp only: groupby_sum_sorted groupby_sum_distinct groupby_sum_set_keys df_tipo_def
        df_subtipo_pie_def df_subtipo_bar_def simp_thms)
qed

text \<open>
  The breakdowns of the example Dataset: \<open>X\<close> with 10 and \<open>Y\<close> with 2 by category,
  \<open>S1\<close> with 10 and \<open>S2\<close> with 2 by subcategory.
\<close>

theorem groupby_sum_ordem_da_chave_witness:
  "df_tipo dataset_exemplo = [(''X'', 10), (''Y'', 2)]
   \<and> df_subtipo_pie dataset_exemplo = [(''S1'', 10), (''S2'', 2)]
   \<and> sorted (map fst (groupby_sum Tipo dataset_exemplo))"
proof -
  have "df_tipo dataset_exemplo = [(''X'', 10), (''Y'', 2)]" by code_simp
  moreover have "df_subtipo_pie dataset_exemplo = [(''S1'', 10), (''S2'', 2)]" by code_simp
  ultimately show ?thesis using groupby_sum_ordem_da_chave [of Tipo dataset_exemplo] by simp
qed

text \<open>
  C6 as stated fails: in a frame whose first row has category \<open>Y\<close> and subcategory
  \<open>S2\<close> and whose second row has category \<open>X\<close> and subcategory \<open>S1\<close>, the
  breakdowns list \<open>X\<close> before \<open>Y\<close> and \<open>S1\<close> before \<open>S2\<close>, while the order of
  first appearance is \<open>Y\<close>, \<open>X\<close> and \<open>S2\<close>, \<open>S1\<close>.
\<close>

theorem groupby_sum_primeira_aparicao_counterexample:
  "df_tipo [\<lparr>Tipo = Some ''Y'', Subtipo = Some ''S2'', Locais = Some ''L1'', Quantidade = 2\<rparr>,
            \<lparr>Tipo = Some ''X'', Subtipo = Some ''S1'', Locais = Some ''L2'', Quantidade = 3\<rparr>]
     = [(''X'', 3), (''Y'', 2)]
   \<and> ordem_primeira_aparicao Tipo
        [\<lparr>Tipo = Some ''Y'', Subtipo = Some ''S2'', Locais = Some ''L1'', Quantidade = 2::int\<rparr>,
         \<lparr>Tipo = Some ''X'', Subtipo = Some ''S1'', Locais = Some ''L2'', Quantidade = 3\<rparr>]
     = [''Y'', ''X'']
   \<and> df_subtipo_pie [\<lparr>Tipo = Some ''Y'', Subtipo = Some ''S2'', Locais = Some ''L1'', Quantidade = 2\<rparr>,
            \<lparr>Tipo = Some ''X'', Subtipo = Some ''S1'', Locais = Some ''L2'', Quantidade = 3\<rparr>]
     = [(''S1'', 3), (''S2'', 2)]
   \<and> ordem_primeira_aparicao Subtipo
        [\<lparr>Tipo = Some ''Y'', Subtipo = Some ''S2'', Locais = Some ''L1'', Quantidade = 2::int\<rparr>,
         \<lparr>Tipo = Some ''X'', Subtipo = Some ''S1'', Locais = Some ''L2'', Quantidade = 3\<rparr>]
     = [''S2'', ''S1'']"
  by code_simp

text \<open>
  The sum of a group wraps: two rows of \<open>2^62\<close> in one category give \<open>-2^63\<close>.
\<close>

lemma df_tipo_wraps:
  "df_tipo [\<lparr>Tipo = Some ''X'', Subtipo = Some ''S1'', Locais = Some ''L1'',
              Quantidade = 4611686018427387904\<rparr>,
            \<lparr>Tipo = Some ''X'', Subtipo = Some ''S1'', Locais = Some ''L2'',
              Quantidade = 4611686018427387904\<rparr>]
     = [(''X'', - 9223372036854775808)]"
  by code_simp

subsection \<open>The top ten locations\<close>







text \<open>
  Two locations with equal sums come out in either order, as the rank of the keys has it.
\<close>

lemma df_para_plotar_empate:
  "df_para_plotar (\<lambda>k. if k = ''L1'' then 0 else 1)
     [\<lparr>Tipo = Some ''X'', Subtipo = Some ''S1'', Locais = Some ''L1'', Quantidade = 5\<rparr>,
      \<lparr>Tipo = Some ''X'', Subtipo = Some ''S1'', Locais = Some ''L2'', Quantidade = 5\<rparr>]
     = [(''L2'', 5), (''L1'', 5)]"
  "df_para_plotar (\<lambda>k. if k = ''L1'' then 1 else 0)
     [\<lparr>Tipo = Some ''X'', Subtipo = Some ''S1'', Locais = Some ''L1'', Quantidade = 5\<rparr>,
      \<lparr>Tipo = Some ''X'', Subtipo = Some ''S1'', Locais = Some ''L2'', Quantidade = 5\<rparr>]
     = [(''L1'', 5), (''L2'', 5)]"
  by code_simp+

end
